theory Spec2Isabelle
  imports Main "HOL-Library.AList"
begin

section \<open>Python values, strings and paths\<close>

text \<open>
  The script \<^verbatim>\<open>real-time_settings.py\<close> handles a small universe of Python values:
  \<^verbatim>\<open>None\<close>, booleans, integers, strings, and the lists, tuples and dictionaries built
  from them (the dictionaries come out of \<^verbatim>\<open>json.load\<close>, so their keys are strings).
  A string is a list of characters, one \<open>char\<close> per code point below 256.
\<close>

datatype pyval =
    PNone
  | PBool bool
  | PInt int
  | PStr string
  | PList "pyval list"
  | PTuple "pyval list"
  | PDict "(string \<times> pyval) list"

text \<open>The exceptions that the script's own statements can raise, and \<^verbatim>\<open>exit(n)\<close>.\<close>

datatype error =
    AttributeError string
  | TypeError
  | FileNotFoundError string
  | CalledProcessError
  | SystemExit int

fun show_nat :: "nat \<Rightarrow> string" where
  "show_nat n =
     (if n < 10 then [''0123456789'' ! n]
      else show_nat (n div 10) @ [''0123456789'' ! (n mod 10)])"

declare show_nat.simps [simp del]

definition show_int :: "int \<Rightarrow> string" where
  "show_int i = (if i < 0 then CHR ''-'' # show_nat (nat (- i)) else show_nat (nat i))"

fun join :: "string \<Rightarrow> string list \<Rightarrow> string" where
  "join sep [] = []"
| "join sep [x] = x"
| "join sep (x # y # ys) = x @ sep @ join sep (y # ys)"

definition is_printable :: "char \<Rightarrow> bool" where
  "is_printable c =
     (let n = (of_char c :: nat)
      in if n < 32 then False else if n < 127 then True
         else if n < 161 then False else n \<noteq> 173)"

definition hex2 :: "nat \<Rightarrow> string" where
  "hex2 n = [''0123456789abcdef'' ! (n div 16), ''0123456789abcdef'' ! (n mod 16)]"

definition escape_char :: "char \<Rightarrow> char \<Rightarrow> string" where
  "escape_char q c =
     (if c = q then [CHR 0x5C, c]
      else if c = CHR 0x5C then [CHR 0x5C, CHR 0x5C]
      else if c = CHR 0x09 then [CHR 0x5C, CHR ''t'']
      else if c = CHR 0x0A then [CHR 0x5C, CHR ''n'']
      else if c = CHR 0x0D then [CHR 0x5C, CHR ''r'']
      else if is_printable c then [c]
      else [CHR 0x5C, CHR ''x''] @ hex2 (of_char c))"

definition repr_str :: "string \<Rightarrow> string" where
  "repr_str s =
     (let q = (if CHR 0x27 \<in> set s \<and> CHR 0x22 \<notin> set s then CHR 0x22 else CHR 0x27)
      in q # concat (map (escape_char q) s) @ [q])"

fun py_repr :: "pyval \<Rightarrow> string" where
  "py_repr PNone = ''None''"
| "py_repr (PBool b) = (if b then ''True'' else ''False'')"
| "py_repr (PInt i) = show_int i"
| "py_repr (PStr s) = repr_str s"
| "py_repr (PList xs) = ''['' @ join '', '' (map py_repr xs) @ '']''"
| "py_repr (PTuple xs) =
     (case xs of
        [x] \<Rightarrow> ''('' @ py_repr x @ '',)''
      | _ \<Rightarrow> ''('' @ join '', '' (map py_repr xs) @ '')'')"
| "py_repr (PDict d) =
     ''{'' @ join '', '' (map (\<lambda>kv. repr_str (fst kv) @ '': '' @ py_repr (snd kv)) d) @ ''}''"

fun py_str :: "pyval \<Rightarrow> string" where
  "py_str (PStr s) = s"
| "py_str v = py_repr v"

text \<open>Truthiness, as \<^verbatim>\<open>x or y\<close> tests it.\<close>

fun truthy :: "pyval \<Rightarrow> bool" where
  "truthy PNone = False"
| "truthy (PBool b) = b"
| "truthy (PInt i) = (i \<noteq> 0)"
| "truthy (PStr s) = (s \<noteq> [])"
| "truthy (PList xs) = (xs \<noteq> [])"
| "truthy (PTuple xs) = (xs \<noteq> [])"
| "truthy (PDict d) = (d \<noteq> [])"

definition py_or :: "pyval \<Rightarrow> pyval \<Rightarrow> pyval" where
  "py_or a b = (if truthy a then a else b)"

text \<open>\<^verbatim>\<open>str.split(sep)\<close> for a one-character separator: empty fields are kept.\<close>

fun split_on :: "char \<Rightarrow> string \<Rightarrow> string list" where
  "split_on c [] = [[]]"
| "split_on c (x # xs) =
     (if x = c then [] # split_on c xs
      else (case split_on c xs of [] \<Rightarrow> [[x]] | y # ys \<Rightarrow> (x # y) # ys))"

text \<open>\<^verbatim>\<open>str.strip()\<close> removes the white space of both ends.\<close>

definition is_space :: "char \<Rightarrow> bool" where
  "is_space c =
     (let n = (of_char c :: nat)
      in if n < 9 then False else if n < 14 then True
         else if n < 28 then False else if n < 33 then True
         else if n = 133 then True else n = 160)"

definition strip :: "string \<Rightarrow> string" where
  "strip s = rev (dropWhile is_space (rev (dropWhile is_space s)))"

text \<open>\<^verbatim>\<open>readline()\<close> on a freshly opened text file: the first line with its newline.\<close>

definition readline :: "string \<Rightarrow> string" where
  "readline s =
     takeWhile (\<lambda>c. c \<noteq> CHR 0x0A) s @ (if CHR 0x0A \<in> set s then [CHR 0x0A] else [])"

definition endswith :: "string \<Rightarrow> string \<Rightarrow> bool" where
  "endswith s suf = (length suf \<le> length s \<and> drop (length s - length suf) s = suf)"

fun contains :: "string \<Rightarrow> string \<Rightarrow> bool" where
  "contains sub [] = (sub = [])"
| "contains sub (x # xs) = (if take (length sub) (x # xs) = sub then True else contains sub xs)"

text \<open>\<^verbatim>\<open>posixpath.join(a, b)\<close> and \<^verbatim>\<open>posixpath.splitext(p)\<close>.\<close>

definition path_join :: "string \<Rightarrow> string \<Rightarrow> string" where
  "path_join a b =
     (if b \<noteq> [] \<and> hd b = CHR ''/'' then b
      else if a = [] then b
      else if last a = CHR ''/'' then a @ b
      else a @ ''/'' @ b)"

fun find_last :: "char \<Rightarrow> string \<Rightarrow> nat \<Rightarrow> int \<Rightarrow> int" where
  "find_last c [] i acc = acc"
| "find_last c (x # xs) i acc = find_last c xs (Suc i) (if x = c then int i else acc)"

definition rfind :: "char \<Rightarrow> string \<Rightarrow> int" where
  "rfind c s = find_last c s 0 (- 1)"

definition splitext :: "string \<Rightarrow> string \<times> string" where
  "splitext p =
     (let sepIndex = rfind CHR ''/'' p; dotIndex = rfind CHR ''.'' p
      in if dotIndex > sepIndex
         then (let filenameIndex = nat (sepIndex + 1);
                   between = take (nat dotIndex - filenameIndex) (drop filenameIndex p)
               in if filter (\<lambda>c. c \<noteq> CHR ''.'') between \<noteq> []
                  then (take (nat dotIndex) p, drop (nat dotIndex) p)
                  else (p, []))
         else (p, []))"

section \<open>The machine the script runs on\<close>

text \<open>
  What the script receives: its parsed command line (\<^verbatim>\<open>cli_args\<close>) and the answers of
  the operating system that it only reads (\<^verbatim>\<open>gettempdir()\<close>, \<^verbatim>\<open>which("systemctl")\<close>,
  what \<^verbatim>\<open>check_output(("systemctl", "list-unit-files"))\<close> returns or raises,
  \<^verbatim>\<open>cpu_count()\<close>, \<^verbatim>\<open>uname()\<close> and \<^verbatim>\<open>getuid()\<close>).
\<close>

datatype switch = On | Off

record cli_args =
  debug :: bool
  verbose :: bool
  simulate :: bool
  list :: bool
  ignore :: "string list"
  on_or_off :: "switch option"

record env =
  tempdir :: string
  which_systemctl :: "string option"
  list_unit_files :: "error + string"
  cpu_count :: nat
  uname_release :: string
  uname_version :: string
  getuid :: nat

text \<open>
  What the script can change or emit. Text files are seen as text mode shows them. The
  snapshot file \<^verbatim>\<open>TEMPFILE\<close> is kept by what \<^verbatim>\<open>json.load\<close> makes of it: it is
  missing, it is not JSON, or it holds a JSON value; \<^verbatim>\<open>json.dump\<close> followed by
  \<^verbatim>\<open>json.load\<close> gives back the dictionary of strings that was dumped. The class
  attribute \<^verbatim>\<open>ActionBase._available_services_cache\<close> is \<open>None\<close> until it is first set.
  The trace lists, in order, every \<^verbatim>\<open>print\<close>, every call of \<^verbatim>\<open>logging\<close>, every child
  process and every \<^verbatim>\<open>open\<close> (by \<^verbatim>\<open>copyfile\<close> too). Opening an existing path is taken
  to succeed: permissions are outside the model.
\<close>

datatype mode = ReadMode | WriteMode

datatype level = DEBUG | INFO | WARNING | ERROR

datatype event =
    Stdout string
  | Logged level string
  | Process "string list"
  | Opened string mode

datatype temp_content = Missing | Malformed | Parsed pyval

record world =
  files :: "string \<rightharpoonup> string"
  tempfile :: temp_content
  available_services_cache :: "string list option"
  trace :: "event list"

text \<open>A statement either returns a value or raises; the effects made so far stay.\<close>

type_synonym 'a action = "world \<Rightarrow> (error + 'a) \<times> world"

definition returns :: "'a \<Rightarrow> 'a action" where
  "returns x w = (Inr x, w)"

definition raises :: "error \<Rightarrow> 'a action" where
  "raises err w = (Inl err, w)"

definition and_then :: "'a action \<Rightarrow> ('a \<Rightarrow> 'b action) \<Rightarrow> 'b action" where
  "and_then m f w = (case m w of (Inl err, w') \<Rightarrow> (Inl err, w') | (Inr x, w') \<Rightarrow> f x w')"

definition emit :: "event \<Rightarrow> unit action" where
  "emit ev w = (Inr (), w\<lparr>trace := trace w @ [ev]\<rparr>)"

fun for_each :: "'a list \<Rightarrow> ('a \<Rightarrow> unit action) \<Rightarrow> unit action" where
  "for_each [] body = returns ()"
| "for_each (x # xs) body = and_then (body x) (\<lambda>_. for_each xs body)"

definition open_read :: "string \<Rightarrow> string action" where
  "open_read p =
     and_then (emit (Opened p ReadMode))
       (\<lambda>_ w. case files w p of
                 None \<Rightarrow> (Inl (FileNotFoundError p), w)
               | Some text \<Rightarrow> (Inr text, w))"

definition open_write :: "string \<Rightarrow> string \<Rightarrow> unit action" where
  "open_write p text =
     and_then (emit (Opened p WriteMode))
       (\<lambda>_ w. (Inr (), w\<lparr>files := (files w)(p \<mapsto> text)\<rparr>))"

section \<open>ActionBase: the snapshot file\<close>

definition TEMPFILE :: "env \<Rightarrow> string" where
  "TEMPFILE e = path_join (tempdir e) ''real-time_settings''"

text \<open>
  \<^verbatim>\<open>_load_all_from_temp\<close>: a missing file (\<^verbatim>\<open>FileNotFoundError\<close>) and a file that is not
  JSON (\<^verbatim>\<open>ValueError\<close>) both give the empty dictionary.
\<close>

definition load_all_from_temp :: "env \<Rightarrow> pyval action" where
  "load_all_from_temp e =
     and_then (emit (Opened (TEMPFILE e) ReadMode))
       (\<lambda>_ w. case tempfile w of
                 Missing \<Rightarrow> (Inr (PDict []), w)
               | Malformed \<Rightarrow> (Inr (PDict []), w)
               | Parsed obj \<Rightarrow> (Inr obj, w))"

definition dict_get :: "(string \<times> pyval) list \<Rightarrow> string \<Rightarrow> pyval \<Rightarrow> pyval" where
  "dict_get d key dflt = (case map_of d key of None \<Rightarrow> dflt | Some v \<Rightarrow> v)"

text \<open>
  \<^verbatim>\<open>load_from_temp\<close> evaluates \<^verbatim>\<open>self._load_all_from_temp().get(key, default)\<close> and has
  no \<^verbatim>\<open>return\<close>: the value is dropped and the call gives \<^verbatim>\<open>None\<close>. A JSON value that
  is not an object has no \<^verbatim>\<open>get\<close>.
\<close>

definition load_from_temp :: "env \<Rightarrow> string \<Rightarrow> pyval \<Rightarrow> pyval action" where
  "load_from_temp e key dflt =
     and_then (load_all_from_temp e)
       (\<lambda>obj. case obj of
                 PDict d \<Rightarrow> and_then (returns (dict_get d key dflt)) (\<lambda>_. returns PNone)
               | _ \<Rightarrow> raises (AttributeError ''get''))"

text \<open>
  \<^verbatim>\<open>store_to_temp\<close>: \<^verbatim>\<open>obj[key] = value\<close> replaces the entry of a key in place or adds
  it last, and raises \<^verbatim>\<open>TypeError\<close> on a JSON value that is not an object. The value is
  a string at the only call.
\<close>

definition store_to_temp :: "env \<Rightarrow> string \<Rightarrow> string \<Rightarrow> unit action" where
  "store_to_temp e key val =
     and_then (load_all_from_temp e)
       (\<lambda>obj. case obj of
                 PDict d \<Rightarrow>
                   and_then (emit (Opened (TEMPFILE e) WriteMode))
                     (\<lambda>_ w. (Inr (),
                        w\<lparr>tempfile := Parsed (PDict (AList.update key (PStr val) d))\<rparr>))
               | _ \<Rightarrow> raises TypeError)"

section \<open>ActionBase: running commands and services\<close>

text \<open>
  \<^verbatim>\<open>execute_safely(function, *args)\<close>: no caller passes keyword arguments, so the second
  \<^verbatim>\<open>join\<close> of \<^verbatim>\<open>as_pretty_string\<close> is over nothing. The function is given by its
  \<^verbatim>\<open>__module__\<close>, its \<^verbatim>\<open>__name__\<close> and what calling it does.
\<close>

definition as_pretty_string :: "string \<Rightarrow> string \<Rightarrow> pyval list \<Rightarrow> string" where
  "as_pretty_string fmodule fname args =
     fmodule @ ''.'' @ fname @ ''('' @ join '', '' (map py_repr args) @ '', ''
       @ join '', '' [] @ '')''"

definition execute_safely ::
  "cli_args \<Rightarrow> string \<Rightarrow> string \<Rightarrow> pyval list \<Rightarrow> unit action \<Rightarrow> unit action" where
  "execute_safely a fmodule fname args function =
     (if simulate a
      then emit (Stdout (''simulating - would execute: '' @ as_pretty_string fmodule fname args))
      else and_then (emit (Logged DEBUG (''executing '' @ as_pretty_string fmodule fname args)))
             (\<lambda>_. function))"

text \<open>
  The lines of \<^verbatim>\<open>systemctl list-unit-files\<close> between the header and the three last
  ones (\<^verbatim>\<open>output.split("\n")[1:-3]\<close>), each cut at its first blank and stripped of its
  extension; empty names are left out.
\<close>

definition parse_unit_files :: "string \<Rightarrow> string list" where
  "parse_unit_files output =
     (let all_lines = split_on (CHR 0x0A) output;
          lines = drop 1 (take (length all_lines - 3) all_lines);
          service_name = (\<lambda>line. fst (splitext (case split_on CHR '' '' line of
                                                   [] \<Rightarrow> [] | field # _ \<Rightarrow> field)))
      in filter (\<lambda>n. n \<noteq> []) (map service_name lines))"

text \<open>
  The first part of \<^verbatim>\<open>service\<close>: the cache is set to the empty list before
  \<^verbatim>\<open>check_output\<close> runs, so it stays empty when \<^verbatim>\<open>check_output\<close> raises.
\<close>

definition fill_services_cache :: "env \<Rightarrow> unit action" where
  "fill_services_cache e =
     (\<lambda>w. case available_services_cache w of
            Some _ \<Rightarrow> (Inr (), w)
          | None \<Rightarrow>
              and_then (emit (Process [''systemctl'', ''list-unit-files'']))
                (\<lambda>_. case list_unit_files e of
                        Inl err \<Rightarrow> raises err
                      | Inr output \<Rightarrow>
                          and_then
                            (\<lambda>w'. (Inr (),
                               w'\<lparr>available_services_cache := Some (parse_unit_files output)\<rparr>))
                            (\<lambda>_. emit (Logged DEBUG (''found services '' @
                                   py_repr (PList (map PStr (parse_unit_files output)))))))
                (w\<lparr>available_services_cache := Some []\<rparr>))"

text \<open>
  \<^verbatim>\<open>subprocess.call((which("systemctl"), action, name))\<close>: \<^verbatim>\<open>which\<close> gives \<^verbatim>\<open>None\<close>
  for a missing program, which \<^verbatim>\<open>call\<close> refuses with \<^verbatim>\<open>TypeError\<close>; the exit status of
  the child is dropped.
\<close>

definition call :: "string option \<Rightarrow> string \<Rightarrow> string \<Rightarrow> unit action" where
  "call program action name =
     (case program of
        None \<Rightarrow> raises TypeError
      | Some systemctl \<Rightarrow> emit (Process [systemctl, action, name]))"

definition opt_str :: "string option \<Rightarrow> pyval" where
  "opt_str x = (case x of None \<Rightarrow> PNone | Some s \<Rightarrow> PStr s)"

definition service :: "env \<Rightarrow> cli_args \<Rightarrow> string \<Rightarrow> string \<Rightarrow> unit action" where
  "service e a name action =
     and_then (fill_services_cache e)
       (\<lambda>_ w. case available_services_cache w of
                 None \<Rightarrow> raises (AttributeError ''_available_services_cache'') w
               | Some cache \<Rightarrow>
                   if name \<in> set cache
                   then execute_safely a ''subprocess'' ''call''
                          [PTuple [opt_str (which_systemctl e), PStr action, PStr name]]
                          (call (which_systemctl e) action name) w
                   else emit (Logged INFO (''service '' @ [CHR 0x27] @ name @ [CHR 0x27] @
                                '' does not seem to exist'')) w)"

definition service_start :: "env \<Rightarrow> cli_args \<Rightarrow> string \<Rightarrow> unit action" where
  "service_start e a name = service e a name ''start''"

definition service_stop :: "env \<Rightarrow> cli_args \<Rightarrow> string \<Rightarrow> unit action" where
  "service_stop e a name = service e a name ''stop''"

section \<open>The settings modules\<close>

datatype settings_module = CheckForRealTimeKernel | Cron | Tlp | FrequencyScaling | IntelPState

text \<open>The list \<^verbatim>\<open>settings_modules\<close>, in the order of the \<^verbatim>\<open>append\<close> calls.\<close>

definition settings_modules :: "settings_module list" where
  "settings_modules = [CheckForRealTimeKernel, Cron, Tlp, FrequencyScaling, IntelPState]"

fun name_of :: "settings_module \<Rightarrow> string" where
  "name_of CheckForRealTimeKernel = ''CheckForRealTimeKernel''"
| "name_of Cron = ''Cron''"
| "name_of Tlp = ''Tlp''"
| "name_of FrequencyScaling = ''FrequencyScaling''"
| "name_of IntelPState = ''IntelPState''"

subsection \<open>CheckForRealTimeKernel\<close>

definition SYS_RT_FILE :: string where
  "SYS_RT_FILE = ''/sys/kernel/realtime''"

definition check_uname :: "env \<Rightarrow> unit action" where
  "check_uname e =
     (if endswith (uname_release e) ''+rt''
      then emit (Logged DEBUG ''found +rt in kernel release'')
      else if contains '' RT '' (uname_version e)
      then emit (Logged DEBUG ''found RT in kernel version'')
      else if contains '' PREEMPT '' (uname_version e)
      then emit (Logged DEBUG ''found PREEMT in kernel version'')
      else emit (Logged WARNING ''You don't seem to be using a real-time kernel.''))"

definition check_for_real_time_kernel_on :: "env \<Rightarrow> unit action" where
  "check_for_real_time_kernel_on e =
     (\<lambda>w. case files w SYS_RT_FILE of
            None \<Rightarrow> check_uname e w
          | Some _ \<Rightarrow>
              and_then (open_read SYS_RT_FILE)
                (\<lambda>text. if readline text = ''1''
                         then emit (Logged DEBUG (''found '' @ SYS_RT_FILE @ '' with '' @
                                      [CHR 0x27] @ ''1'' @ [CHR 0x27] @ '' in it''))
                         else check_uname e) w)"

subsection \<open>FrequencyScaling\<close>

definition CPUFREQ_BASE_PATH :: "nat \<Rightarrow> string" where
  "CPUFREQ_BASE_PATH cpu_num = ''/sys/devices/system/cpu/cpu'' @ show_nat cpu_num @ ''/cpufreq''"

definition CPUFREQ_MIN :: "nat \<Rightarrow> string" where
  "CPUFREQ_MIN cpu_num = path_join (CPUFREQ_BASE_PATH cpu_num) ''cpuinfo_min_freq''"

definition CPUFREQ_MAX :: "nat \<Rightarrow> string" where
  "CPUFREQ_MAX cpu_num = path_join (CPUFREQ_BASE_PATH cpu_num) ''cpuinfo_max_freq''"

definition CPUFREQ_MIN_ALLOWED :: "nat \<Rightarrow> string" where
  "CPUFREQ_MIN_ALLOWED cpu_num = path_join (CPUFREQ_BASE_PATH cpu_num) ''scaling_min_freq''"

text \<open>\<^verbatim>\<open>shutil.copyfile(src, dst)\<close> between two different paths.\<close>

definition copyfile :: "string \<Rightarrow> string \<Rightarrow> unit action" where
  "copyfile src dst = and_then (open_read src) (\<lambda>text. open_write dst text)"

definition frequency_scaling_on :: "env \<Rightarrow> cli_args \<Rightarrow> unit action" where
  "frequency_scaling_on e a =
     for_each [0 ..< cpu_count e]
       (\<lambda>cpu_num. execute_safely a ''shutil'' ''copyfile''
                     [PStr (CPUFREQ_MAX cpu_num), PStr (CPUFREQ_MIN_ALLOWED cpu_num)]
                     (copyfile (CPUFREQ_MAX cpu_num) (CPUFREQ_MIN_ALLOWED cpu_num)))"

definition frequency_scaling_off :: "env \<Rightarrow> cli_args \<Rightarrow> unit action" where
  "frequency_scaling_off e a =
     for_each [0 ..< cpu_count e]
       (\<lambda>cpu_num. execute_safely a ''shutil'' ''copyfile''
                     [PStr (CPUFREQ_MIN cpu_num), PStr (CPUFREQ_MIN_ALLOWED cpu_num)]
                     (copyfile (CPUFREQ_MIN cpu_num) (CPUFREQ_MIN_ALLOWED cpu_num)))"

subsection \<open>IntelPState\<close>

text \<open>
  What \<^verbatim>\<open>self.NAME\<close> finds on an \<^verbatim>\<open>IntelPState\<close> object: the data attributes of the
  class body and then those of \<^verbatim>\<open>ActionBase\<close>. The source defines no other.
\<close>

definition intel_pstate_attributes :: "env \<Rightarrow> (string \<times> pyval) list" where
  "intel_pstate_attributes e =
     [(''PSTATE_NO_TURBO_FILE_NAME'', PStr ''/sys/devices/system/cpu/intel_pstate/no_turbo''),
      (''PSTATE_NO_TURBO_ON'', PInt 0),
      (''PSTATE_NO_TURBO_OFF_DEFAULT'', PInt 1),
      (''TEMPFILE'', PStr (TEMPFILE e))]"

definition getattr :: "env \<Rightarrow> string \<Rightarrow> pyval action" where
  "getattr e name =
     (case map_of (intel_pstate_attributes e) name of
        None \<Rightarrow> raises (AttributeError name)
      | Some v \<Rightarrow> returns v)"

definition store_current_and_replace :: "env \<Rightarrow> pyval \<Rightarrow> pyval \<Rightarrow> unit action" where
  "store_current_and_replace e file_name val =
     and_then (getattr e ''PSTATE_BASE_PATH'')
       (\<lambda>base. case (base, file_name) of
                  (PStr b, PStr f) \<Rightarrow>
                    (let file_path = path_join b f
                     in and_then (open_read file_path)
                          (\<lambda>text. and_then (store_to_temp e file_path (strip (readline text)))
                             (\<lambda>_. open_write file_path (py_str val))))
                | _ \<Rightarrow> raises TypeError)"

definition restore_or_set :: "env \<Rightarrow> pyval \<Rightarrow> pyval \<Rightarrow> unit action" where
  "restore_or_set e file_name dflt =
     and_then (getattr e ''PSTATE_BASE_PATH'')
       (\<lambda>base. case (base, file_name) of
                  (PStr b, PStr f) \<Rightarrow>
                    (let file_path = path_join b f
                     in and_then (load_from_temp e f PNone)
                          (\<lambda>loaded. open_write file_path (py_str (py_or loaded dflt))))
                | _ \<Rightarrow> raises TypeError)"

definition intel_pstate_on :: "env \<Rightarrow> cli_args \<Rightarrow> unit action" where
  "intel_pstate_on e a =
     and_then (getattr e ''PSTATE_NO_TURBO_FILE_NAME'')
       (\<lambda>file_name. and_then (getattr e ''PSTATE_NO_TURBO_ON'')
          (\<lambda>val. execute_safely a ''__main__'' ''_store_current_and_replace'' [file_name, val]
                    (store_current_and_replace e file_name val)))"

definition intel_pstate_off :: "env \<Rightarrow> cli_args \<Rightarrow> unit action" where
  "intel_pstate_off e a =
     and_then (getattr e ''PSTATE_NO_TURBO_FILE_NAME'')
       (\<lambda>file_name. and_then (getattr e ''PSTATE_NO_TURBO_OFF_DEFAULT'')
          (\<lambda>dflt. execute_safely a ''__main__'' ''_restore_or_set'' [file_name, dflt]
                     (restore_or_set e file_name dflt)))"

subsection \<open>The two operations of every module\<close>

fun rt_settings_on :: "env \<Rightarrow> cli_args \<Rightarrow> settings_module \<Rightarrow> unit action" where
  "rt_settings_on e a CheckForRealTimeKernel = check_for_real_time_kernel_on e"
| "rt_settings_on e a Cron =
     and_then (service_stop e a ''cron'') (\<lambda>_. service_stop e a ''crond'')"
| "rt_settings_on e a Tlp = service_stop e a ''tlp''"
| "rt_settings_on e a FrequencyScaling = frequency_scaling_on e a"
| "rt_settings_on e a IntelPState = intel_pstate_on e a"

fun rt_settings_off :: "env \<Rightarrow> cli_args \<Rightarrow> settings_module \<Rightarrow> unit action" where
  "rt_settings_off e a CheckForRealTimeKernel = returns ()"
| "rt_settings_off e a Cron =
     and_then (service_start e a ''cron'') (\<lambda>_. service_start e a ''crond'')"
| "rt_settings_off e a Tlp = service_start e a ''tlp''"
| "rt_settings_off e a FrequencyScaling = frequency_scaling_off e a"
| "rt_settings_off e a IntelPState = intel_pstate_off e a"

section \<open>Execution of the settings modules\<close>

text \<open>
  The loop that sorts out the ignored modules runs over \<^verbatim>\<open>settings_modules\<close> and changes
  the copy \<^verbatim>\<open>unignored_settings_modules\<close> and the list \<^verbatim>\<open>cli_args.ignore\<close>;
  \<^verbatim>\<open>list.remove\<close> takes out the first occurrence only.
\<close>

fun assort_ignored ::
  "settings_module list \<Rightarrow> settings_module list \<times> string list
     \<Rightarrow> settings_module list \<times> string list" where
  "assort_ignored [] (unignored, ign) = (unignored, ign)"
| "assort_ignored (m # ms) (unignored, ign) =
     (if name_of m \<in> set ign
      then assort_ignored ms (remove1 m unignored, remove1 (name_of m) ign)
      else assort_ignored ms (unignored, ign))"

definition unignored_settings_modules :: "string list \<Rightarrow> settings_module list \<times> string list" where
  "unignored_settings_modules ign = assort_ignored settings_modules (settings_modules, ign)"

definition run_on :: "env \<Rightarrow> cli_args \<Rightarrow> settings_module list \<Rightarrow> unit action" where
  "run_on e a ms =
     for_each ms
       (\<lambda>m. and_then (emit (Logged INFO (''real-time settings on: '' @ name_of m)))
              (\<lambda>_. rt_settings_on e a m))"

definition run_off :: "env \<Rightarrow> cli_args \<Rightarrow> settings_module list \<Rightarrow> unit action" where
  "run_off e a ms =
     for_each ms
       (\<lambda>m. and_then (emit (Logged INFO (''real-time settings off: '' @ name_of m)))
              (\<lambda>_. rt_settings_off e a m))"

definition warn_unless_root :: "env \<Rightarrow> cli_args \<Rightarrow> unit action" where
  "warn_unless_root e a =
     (if on_or_off a = None then returns ()
      else if getuid e = 0 then returns ()
      else emit (Logged WARNING
             ''You'll probably have to run this as root (sudo) but I'll continue and try.''))"

definition main :: "env \<Rightarrow> cli_args \<Rightarrow> unit action" where
  "main e a =
     (if list a
      then and_then (for_each settings_modules (\<lambda>m. emit (Stdout (name_of m))))
             (\<lambda>_. raises (SystemExit 0))
      else (case unignored_settings_modules (ignore a) of
              (unignored, ign) \<Rightarrow>
                if ign = []
                then and_then (warn_unless_root e a)
                       (\<lambda>_. case on_or_off a of
                               Some On \<Rightarrow> run_on e a unignored
                             | Some Off \<Rightarrow> run_off e a unignored
                             | None \<Rightarrow>
                                 emit (Stdout (''please provide either 'on' or 'off' '' @
                                               ''as last argument (see -h)'')))
                else and_then
                       (emit (Logged ERROR (''Could not find settings modules to ignore: '' @
                                py_repr (PList (map PStr ign)))))
                       (\<lambda>_. raises (SystemExit 1))))"

text \<open>The exit status of the process: an exception that nothing catches gives 1.\<close>

fun exit_code :: "error + unit \<Rightarrow> int" where
  "exit_code (Inr _) = 0"
| "exit_code (Inl (SystemExit n)) = n"
| "exit_code (Inl _) = 1"

section \<open>Notions used by the properties\<close>

text \<open>
  The dictionary that \<^verbatim>\<open>_load_all_from_temp\<close> makes of a snapshot file, when it makes
  one: a JSON value that is not an object is no snapshot.
\<close>

fun snapshot_of :: "temp_content \<Rightarrow> (string \<times> pyval) list option" where
  "snapshot_of Missing = Some []"
| "snapshot_of Malformed = Some []"
| "snapshot_of (Parsed (PDict d)) = Some d"
| "snapshot_of (Parsed _) = None"

text \<open>
  An event that changes nothing on the machine: output, a logging call, reading a file,
  and the query \<^verbatim>\<open>systemctl list-unit-files\<close>.
\<close>

fun harmless :: "event \<Rightarrow> bool" where
  "harmless (Stdout _) = True"
| "harmless (Logged _ _) = True"
| "harmless (Process argv) = (argv = [''systemctl'', ''list-unit-files''])"
| "harmless (Opened _ m) = (m = ReadMode)"

fun is_process :: "event \<Rightarrow> bool" where
  "is_process (Process _) = True"
| "is_process _ = False"

text \<open>
  An action that leaves every file and the snapshot file as they are and only appends
  harmless events, whatever it returns or raises.
\<close>

definition only_describes :: "'a action \<Rightarrow> bool" where
  "only_describes act =
     (\<forall>w. files (snd (act w)) = files w \<and> tempfile (snd (act w)) = tempfile w \<and>
          (\<exists>evs. trace (snd (act w)) = trace w @ evs \<and> list_all harmless evs))"

subsection \<open>A machine and some command lines to run the script on\<close>

definition NO_TURBO :: string where
  "NO_TURBO = ''/sys/devices/system/cpu/intel_pstate/no_turbo''"

definition example_env :: env where
  "example_env =
     \<lparr>tempdir = ''/tmp'',
      which_systemctl = Some ''/usr/bin/systemctl'',
      list_unit_files = Inr (''UNIT FILE STATE'' @ [CHR 0x0A] @
                             ''tlp.service enabled'' @ [CHR 0x0A] @
                             ''ssh.service enabled'' @ [CHR 0x0A] @
                             [CHR 0x0A] @
                             ''2 unit files listed.'' @ [CHR 0x0A]),
      cpu_count = 2,
      uname_release = ''6.1.0-18-amd64'',
      uname_version = ''#1 SMP Debian 6.1.76-1'',
      getuid = 0\<rparr>"

definition example_world :: world where
  "example_world =
     \<lparr>files = [NO_TURBO \<mapsto> ''0'' @ [CHR 0x0A]],
      tempfile = Missing,
      available_services_cache = None,
      trace = []\<rparr>"

definition snapshot_world :: world where
  "snapshot_world = example_world\<lparr>tempfile := Parsed (PDict [(''k'', PStr ''v'')])\<rparr>"

definition cached_world :: world where
  "cached_world = example_world\<lparr>available_services_cache := Some [''tlp'', ''ssh'']\<rparr>"

definition plain_args :: cli_args where
  "plain_args =
     \<lparr>debug = False, verbose = False, simulate = False, list = False, ignore = [],
      on_or_off = None\<rparr>"

section \<open>The snapshot file: properties\<close>

lemma load_from_temp_gives_None:
  "fst (load_from_temp e key dflt w) = Inr v \<Longrightarrow> v = PNone"
  by (auto simp: load_from_temp_def load_all_from_temp_def and_then_def emit_def returns_def
      raises_def split: temp_content.splits pyval.splits)

text \<open>
  Claim C2 says that \<^verbatim>\<open>load_from_temp(k, d)\<close> returns the value stored for \<open>k\<close> when the
  snapshot has the key, and \<open>d\<close> when it has not. The method has no \<^verbatim>\<open>return\<close>
  statement: on the snapshot \<^verbatim>\<open>{"k": "v"}\<close> it gives \<^verbatim>\<open>None\<close> for the stored key
  \<^verbatim>\<open>"k"\<close> (not \<^verbatim>\<open>"v"\<close>) and \<^verbatim>\<open>None\<close> for a key that is absent (not the default
  \<^verbatim>\<open>"d"\<close>).
\<close>

theorem load_from_temp_drops_the_value:
  "fst (load_from_temp example_env ''k'' (PStr ''d'') snapshot_world) = Inr PNone
   \<and> fst (load_from_temp example_env ''absent'' (PStr ''d'') snapshot_world) = Inr PNone
   \<and> dict_get [(''k'', PStr ''v'')] ''k'' (PStr ''d'') = PStr ''v''
   \<and> dict_get [(''k'', PStr ''v'')] ''absent'' (PStr ''d'') = PStr ''d''"
  by (simp add: load_from_temp_def load_all_from_temp_def and_then_def emit_def returns_def
      snapshot_world_def example_world_def dict_get_def)

text \<open>
  Claim C7: for every key \<open>k\<close> and value \<open>v\<close>, \<^verbatim>\<open>store_to_temp(k, v)\<close> followed by loading
  the whole snapshot yields a mapping that has \<open>k\<close> mapped to \<open>v\<close>, and every other key keeps
  the value it had. The snapshot before is what \<^verbatim>\<open>_load_all_from_temp\<close> reads: the empty
  mapping for a missing or unreadable file, the stored object otherwise.
\<close>

theorem store_to_temp_then_load:
  assumes "snapshot_of (tempfile w) = Some d"
  shows "\<exists>w1 w2 d'. store_to_temp e k v w = (Inr (), w1)
           \<and> load_all_from_temp e w1 = (Inr (PDict d'), w2)
           \<and> map_of d' = (map_of d)(k \<mapsto> PStr v)"
  using assms
  by (cases "tempfile w" rule: snapshot_of.cases)
     (auto simp: store_to_temp_def load_all_from_temp_def and_then_def emit_def returns_def
      raises_def update_conv')

theorem store_to_temp_then_load_witness:
  "snapshot_of (tempfile snapshot_world) = Some [(''k'', PStr ''v'')]
   \<and> (\<exists>w1 w2 d'. store_to_temp example_env ''j'' ''x'' snapshot_world = (Inr (), w1)
          \<and> load_all_from_temp example_env w1 = (Inr (PDict d'), w2)
          \<and> map_of d' = (map_of [(''k'', PStr ''v'')])(''j'' \<mapsto> PStr ''x''))"
proof -
  have h: "snapshot_of (tempfile snapshot_world) = Some [(''k'', PStr ''v'')]"
    by (simp add: snapshot_world_def example_world_def)
  show ?thesis
    using h store_to_temp_then_load [OF h, of example_env "''j''" "''x''"] by simp
qed

section \<open>The driver: properties\<close>

lemma main_list:
  "list a \<Longrightarrow> main e a w =
     (Inl (SystemExit 0),
      w\<lparr>trace := trace w @ map Stdout [''CheckForRealTimeKernel'', ''Cron'', ''Tlp'',
                                        ''FrequencyScaling'', ''IntelPState'']\<rparr>)"
  by (simp add: main_def settings_modules_def and_then_def emit_def raises_def returns_def)

lemma assort_ignored_keeps_unknown:
  "n \<in> set ign \<Longrightarrow> n \<notin> name_of ` set ms \<Longrightarrow> n \<in> set (snd (assort_ignored ms (un, ign)))"
proof (induction ms arbitrary: un ign)
  case Nil
  then show ?case by simp
next
  case (Cons m ms)
  then have "n \<noteq> name_of m" by auto
  with Cons show ?case by (auto simp: set_remove1_eq in_set_remove1)
qed

lemma main_unknown_ignore:
  assumes "\<not> list a" "n \<in> set (ignore a)" "n \<notin> set (map name_of settings_modules)"
  shows "main e a w =
     (Inl (SystemExit 1),
      w\<lparr>trace := trace w @
          [Logged ERROR (''Could not find settings modules to ignore: '' @
             py_repr (PList (map PStr (snd (unignored_settings_modules (ignore a))))))]\<rparr>)"
proof -
  have "n \<in> set (snd (unignored_settings_modules (ignore a)))"
    unfolding unignored_settings_modules_def using assms(2,3)
    by (intro assort_ignored_keeps_unknown) auto
  then have ne: "snd (unignored_settings_modules (ignore a)) \<noteq> []" by auto
  show ?thesis using assms(1) ne
    by (cases "unignored_settings_modules (ignore a)")
       (simp add: main_def and_then_def emit_def raises_def)
qed

lemma Nope_is_no_module: "''Nope'' \<notin> set (map name_of settings_modules)"
  by (simp add: settings_modules_def)

text \<open>
  Claim C8: invoking with \<^verbatim>\<open>--list\<close> (and no modules ignored) prints exactly the five
  module names, one per line, in registration order, and exits with code 0; no module
  operation runs: the five lines are all that the run adds to the machine.
\<close>

theorem list_prints_the_five_names:
  assumes "list a" and "ignore a = []"
  shows "main e a w =
           (Inl (SystemExit 0),
            w\<lparr>trace := trace w @ [Stdout ''CheckForRealTimeKernel'', Stdout ''Cron'',
                                   Stdout ''Tlp'', Stdout ''FrequencyScaling'',
                                   Stdout ''IntelPState'']\<rparr>)
         \<and> exit_code (fst (main e a w)) = 0
         \<and> map name_of settings_modules =
             [''CheckForRealTimeKernel'', ''Cron'', ''Tlp'', ''FrequencyScaling'', ''IntelPState'']"
  using main_list [OF assms(1), of e w] by (simp add: settings_modules_def)

theorem list_prints_the_five_names_witness:
  "list (plain_args\<lparr>list := True\<rparr>) \<and> ignore (plain_args\<lparr>list := True\<rparr>) = []
   \<and> main example_env (plain_args\<lparr>list := True\<rparr>) example_world =
       (Inl (SystemExit 0),
        example_world\<lparr>trace := [Stdout ''CheckForRealTimeKernel'', Stdout ''Cron'',
                                 Stdout ''Tlp'', Stdout ''FrequencyScaling'',
                                 Stdout ''IntelPState'']\<rparr>)"
proof -
  have l: "list (plain_args\<lparr>list := True\<rparr>)" by simp
  have i: "ignore (plain_args\<lparr>list := True\<rparr>) = []" by (simp add: plain_args_def)
  show ?thesis
    using l i list_prints_the_five_names [OF l i, of example_env example_world]
    by (simp add: example_world_def)
qed

text \<open>
  Claim C10: \<^verbatim>\<open>--list\<close> is handled before the names of \<^verbatim>\<open>--ignore\<close> are checked. Every
  run with \<^verbatim>\<open>--list\<close> prints the module names and exits 0, whatever \<^verbatim>\<open>--ignore\<close> holds;
  without \<^verbatim>\<open>--list\<close>, a name of \<^verbatim>\<open>--ignore\<close> that matches no module exits with code 1.
\<close>

theorem list_comes_before_ignore_validation:
  "(list a \<longrightarrow>
      main e a w = (Inl (SystemExit 0), w\<lparr>trace := trace w @ map Stdout (map name_of settings_modules)\<rparr>)
      \<and> exit_code (fst (main e a w)) = 0)
   \<and> (\<not> list a \<and> n \<in> set (ignore a) \<and> n \<notin> set (map name_of settings_modules) \<longrightarrow>
        exit_code (fst (main e a w)) = 1)"
proof (intro conjI impI)
  assume "list a"
  from main_list [OF this, of e w]
  show "main e a w =
          (Inl (SystemExit 0), w\<lparr>trace := trace w @ map Stdout (map name_of settings_modules)\<rparr>)"
    by (simp add: settings_modules_def)
  then show "exit_code (fst (main e a w)) = 0" by simp
next
  assume "\<not> list a \<and> n \<in> set (ignore a) \<and> n \<notin> set (map name_of settings_modules)"
  then show "exit_code (fst (main e a w)) = 1"
    using main_unknown_ignore [of a n e w] by simp
qed

theorem list_comes_before_ignore_validation_witness:
  "list (plain_args\<lparr>list := True, ignore := [''Nope'']\<rparr>)
   \<and> ''Nope'' \<in> set (ignore (plain_args\<lparr>list := True, ignore := [''Nope'']\<rparr>))
   \<and> ''Nope'' \<notin> set (map name_of settings_modules)
   \<and> exit_code (fst (main example_env (plain_args\<lparr>list := True, ignore := [''Nope'']\<rparr>)
                       example_world)) = 0
   \<and> exit_code (fst (main example_env (plain_args\<lparr>ignore := [''Nope'']\<rparr>) example_world)) = 1"
  using list_comes_before_ignore_validation
          [of "plain_args\<lparr>list := True, ignore := [''Nope'']\<rparr>" example_env example_world "''Nope''"]
        list_comes_before_ignore_validation
          [of "plain_args\<lparr>ignore := [''Nope'']\<rparr>" example_env example_world "''Nope''"]
        Nope_is_no_module
  by (simp add: plain_args_def)

text \<open>
  Claim C4 says that a name of \<^verbatim>\<open>--ignore\<close> that matches no registered module makes the
  program exit with code 1 without running any module. With \<^verbatim>\<open>--list\<close> the program
  prints the names and exits 0 before it looks at \<^verbatim>\<open>--ignore\<close>:
\<close>

theorem unknown_ignore_with_list_exits_0:
  "''Nope'' \<in> set (ignore (plain_args\<lparr>list := True, ignore := [''Nope'']\<rparr>))
   \<and> ''Nope'' \<notin> set (map name_of settings_modules)
   \<and> exit_code (fst (main example_env (plain_args\<lparr>list := True, ignore := [''Nope'']\<rparr>)
                       example_world)) = 0
   \<and> exit_code (fst (main example_env (plain_args\<lparr>list := True, ignore := [''Nope'']\<rparr>)
                       example_world)) \<noteq> 1"
  using main_list [of "plain_args\<lparr>list := True, ignore := [''Nope'']\<rparr>" example_env example_world]
        Nope_is_no_module
  by simp

text \<open>
  Claim C4, amended: without \<^verbatim>\<open>--list\<close>, a name of \<^verbatim>\<open>--ignore\<close> that matches no
  registered module makes the program exit with code 1; all that the run does before is
  one call of \<^verbatim>\<open>logging.error\<close>, so no module is applied or reverted.
\<close>

theorem unknown_ignore_exits_1:
  assumes "\<not> list a" and "n \<in> set (ignore a)" and "n \<notin> set (map name_of settings_modules)"
  shows "exit_code (fst (main e a w)) = 1
         \<and> snd (main e a w) =
             w\<lparr>trace := trace w @
                 [Logged ERROR (''Could not find settings modules to ignore: '' @
                    py_repr (PList (map PStr (snd (unignored_settings_modules (ignore a))))))]\<rparr>"
  using main_unknown_ignore [OF assms, of e w] by simp

theorem unknown_ignore_exits_1_witness:
  "\<not> list (plain_args\<lparr>ignore := [''Cron'', ''Nope''], on_or_off := Some On\<rparr>)
   \<and> ''Nope'' \<in> set (ignore (plain_args\<lparr>ignore := [''Cron'', ''Nope''], on_or_off := Some On\<rparr>))
   \<and> ''Nope'' \<notin> set (map name_of settings_modules)
   \<and> exit_code (fst (main example_env
         (plain_args\<lparr>ignore := [''Cron'', ''Nope''], on_or_off := Some On\<rparr>) example_world)) = 1
   \<and> snd (main example_env
         (plain_args\<lparr>ignore := [''Cron'', ''Nope''], on_or_off := Some On\<rparr>) example_world) =
       example_world\<lparr>trace :=
         [Logged ERROR (''Could not find settings modules to ignore: ['' @ [CHR 0x27] @
                        ''Nope'' @ [CHR 0x27] @ '']'')]\<rparr>"
proof -
  let ?a = "plain_args\<lparr>ignore := [''Cron'', ''Nope''], on_or_off := Some On\<rparr>"
  have l: "\<not> list ?a" by (simp add: plain_args_def)
  have i: "''Nope'' \<in> set (ignore ?a)" by simp
  have u: "snd (unignored_settings_modules (ignore ?a)) = [''Nope'']"
    by (simp add: unignored_settings_modules_def settings_modules_def)
  have r: "py_repr (PList (map PStr [''Nope''])) = ''['' @ [CHR 0x27] @ ''Nope'' @ [CHR 0x27] @ '']''"
    by (simp add: repr_str_def escape_char_def is_printable_def Let_def)
  show ?thesis
    using l i Nope_is_no_module
      unknown_ignore_exits_1 [OF l i Nope_is_no_module, of example_env example_world]
    unfolding u r by (simp add: example_world_def)
qed

text \<open>
  Claim C5: for every registered module name \<open>N\<close>, \<^verbatim>\<open>--ignore N\<close> leaves the list of
  modules in registration order with exactly the module named \<open>N\<close> taken out, and no name
  of \<^verbatim>\<open>--ignore\<close> is left over. This list is the one the driver runs over.
\<close>

theorem ignore_one_removes_exactly_it:
  assumes "N \<in> set (map name_of settings_modules)"
  shows "unignored_settings_modules [N] = (filter (\<lambda>m. name_of m \<noteq> N) settings_modules, [])
         \<and> (\<exists>m. name_of m = N \<and>
                filter (\<lambda>m. name_of m \<noteq> N) settings_modules = remove1 m settings_modules)
         \<and> (\<not> list a \<and> ignore a = [N] \<and> on_or_off a = Some On \<longrightarrow>
              main e a w =
                and_then (warn_unless_root e a)
                  (\<lambda>_. run_on e a (filter (\<lambda>m. name_of m \<noteq> N) settings_modules)) w)
         \<and> (\<not> list a \<and> ignore a = [N] \<and> on_or_off a = Some Off \<longrightarrow>
              main e a w =
                and_then (warn_unless_root e a)
                  (\<lambda>_. run_off e a (filter (\<lambda>m. name_of m \<noteq> N) settings_modules)) w)"
proof -
  have u: "unignored_settings_modules [N] = (filter (\<lambda>m. name_of m \<noteq> N) settings_modules, [])"
    using assms by (auto simp: unignored_settings_modules_def settings_modules_def)
  have r: "\<exists>m. name_of m = N \<and>
             filter (\<lambda>m. name_of m \<noteq> N) settings_modules = remove1 m settings_modules"
    using assms by (auto simp: settings_modules_def)
  show ?thesis using u r by (simp add: main_def)
qed

theorem ignore_one_removes_exactly_it_witness:
  "''Tlp'' \<in> set (map name_of settings_modules)
   \<and> unignored_settings_modules [''Tlp''] =
       ([CheckForRealTimeKernel, Cron, FrequencyScaling, IntelPState], [])"
proof -
  have n: "''Tlp'' \<in> set (map name_of settings_modules)" by (simp add: settings_modules_def)
  show ?thesis
    using n ignore_one_removes_exactly_it [OF n, of plain_args example_env example_world]
    by (simp add: settings_modules_def)
qed

section \<open>The service controller: properties\<close>

lemma service_absent:
  assumes "available_services_cache w = Some cache" and "name \<notin> set cache"
  shows "service e a name action w =
     (Inr (), w\<lparr>trace := trace w @ [Logged INFO (''service '' @ [CHR 0x27] @ name @ [CHR 0x27] @
                                '' does not seem to exist'')]\<rparr>)"
  using assms
  by (simp add: service_def fill_services_cache_def and_then_def emit_def)

text \<open>
  The first call of a run finds no cache and builds it with one child process, for a name
  that the list does not have as for any other.
\<close>

lemma service_first_use:
  assumes "available_services_cache w = None" and "list_unit_files e = Inr output"
    and "name \<notin> set (parse_unit_files output)"
  shows "service e a name action w =
     (Inr (),
      w\<lparr>available_services_cache := Some (parse_unit_files output),
        trace := trace w @
          [Process [''systemctl'', ''list-unit-files''],
           Logged DEBUG (''found services '' @ py_repr (PList (map PStr (parse_unit_files output)))),
           Logged INFO (''service '' @ [CHR 0x27] @ name @ [CHR 0x27] @
                        '' does not seem to exist'')]\<rparr>)"
  using assms
  by (simp add: service_def fill_services_cache_def and_then_def emit_def)

text \<open>
  Claim C6: for every service name absent from the cached unit-file list, calling the
  service controller's start or stop performs no process invocation and does not raise;
  it logs an informational message and takes no action. With the cache in place, the one
  logging call is all that either call adds to the machine.
\<close>

theorem service_absent_from_cache_takes_no_action:
  assumes "available_services_cache w = Some cache" and "name \<notin> set cache"
  shows "service_start e a name w =
           (Inr (), w\<lparr>trace := trace w @
              [Logged INFO (''service '' @ [CHR 0x27] @ name @ [CHR 0x27] @
                            '' does not seem to exist'')]\<rparr>)
         \<and> service_stop e a name w =
           (Inr (), w\<lparr>trace := trace w @
              [Logged INFO (''service '' @ [CHR 0x27] @ name @ [CHR 0x27] @
                            '' does not seem to exist'')]\<rparr>)
         \<and> filter is_process (trace (snd (service_start e a name w))) = filter is_process (trace w)
         \<and> filter is_process (trace (snd (service_stop e a name w))) = filter is_process (trace w)"
  using service_absent [OF assms] by (simp add: service_start_def service_stop_def)

theorem service_absent_from_cache_takes_no_action_witness:
  "available_services_cache cached_world = Some [''tlp'', ''ssh'']
   \<and> ''cron'' \<notin> set [''tlp'', ''ssh'']
   \<and> service_stop example_env plain_args ''cron'' cached_world =
       (Inr (), cached_world\<lparr>trace :=
          [Logged INFO (''service '' @ [CHR 0x27] @ ''cron'' @ [CHR 0x27] @
                        '' does not seem to exist'')]\<rparr>)
   \<and> filter is_process (trace (snd (service_start example_env plain_args ''cron'' cached_world))) = []"
proof -
  have c: "available_services_cache cached_world = Some [''tlp'', ''ssh'']"
    by (simp add: cached_world_def)
  have n: "''cron'' \<notin> set [''tlp'', ''ssh'']" by simp
  show ?thesis
    using c n service_absent_from_cache_takes_no_action [OF c n, of example_env plain_args]
    by (simp add: cached_world_def example_world_def)
qed

section \<open>The turbo-boost module: properties\<close>

lemma getattr_PSTATE_BASE_PATH:
  "getattr e ''PSTATE_BASE_PATH'' w = (Inl (AttributeError ''PSTATE_BASE_PATH''), w)"
  by (simp add: getattr_def intel_pstate_attributes_def raises_def)

lemma store_current_and_replace_raises:
  "store_current_and_replace e f v w = (Inl (AttributeError ''PSTATE_BASE_PATH''), w)"
  by (simp add: store_current_and_replace_def and_then_def getattr_PSTATE_BASE_PATH)

lemma restore_or_set_raises:
  "restore_or_set e f v w = (Inl (AttributeError ''PSTATE_BASE_PATH''), w)"
  by (simp add: restore_or_set_def and_then_def getattr_PSTATE_BASE_PATH)

lemma intel_pstate_on_raises:
  "\<not> simulate a \<Longrightarrow> rt_settings_on e a IntelPState w =
     (Inl (AttributeError ''PSTATE_BASE_PATH''),
      w\<lparr>trace := trace w @ [Logged DEBUG (''executing '' @
          as_pretty_string ''__main__'' ''_store_current_and_replace''
            [PStr ''/sys/devices/system/cpu/intel_pstate/no_turbo'', PInt 0])]\<rparr>)"
  by (simp add: intel_pstate_on_def and_then_def getattr_def intel_pstate_attributes_def
      returns_def execute_safely_def emit_def store_current_and_replace_raises)

lemma intel_pstate_off_raises:
  "\<not> simulate a \<Longrightarrow> rt_settings_off e a IntelPState w =
     (Inl (AttributeError ''PSTATE_BASE_PATH''),
      w\<lparr>trace := trace w @ [Logged DEBUG (''executing '' @
          as_pretty_string ''__main__'' ''_restore_or_set''
            [PStr ''/sys/devices/system/cpu/intel_pstate/no_turbo'', PInt 1])]\<rparr>)"
  by (simp add: intel_pstate_off_def and_then_def getattr_def intel_pstate_attributes_def
      returns_def execute_safely_def emit_def restore_or_set_raises)

text \<open>
  Claim C9: when simulate mode is off, every call of the turbo-boost module's
  \<^verbatim>\<open>rt_settings_on\<close> or \<^verbatim>\<open>rt_settings_off\<close> raises an attribute-lookup error before it
  reads or writes any file or snapshot entry, because \<^verbatim>\<open>PSTATE_BASE_PATH\<close> is never
  defined; the files and the snapshot are left as they were. All that either call adds to
  the machine is the \<^verbatim>\<open>logging.debug\<close> call of \<^verbatim>\<open>execute_safely\<close>: no file is opened.
\<close>

theorem turbo_module_raises_AttributeError:
  assumes "\<not> simulate a"
  shows "map_of (intel_pstate_attributes e) ''PSTATE_BASE_PATH'' = None
         \<and> rt_settings_on e a IntelPState w =
             (Inl (AttributeError ''PSTATE_BASE_PATH''),
              w\<lparr>trace := trace w @ [Logged DEBUG (''executing '' @
                  as_pretty_string ''__main__'' ''_store_current_and_replace''
                    [PStr ''/sys/devices/system/cpu/intel_pstate/no_turbo'', PInt 0])]\<rparr>)
         \<and> rt_settings_off e a IntelPState w =
             (Inl (AttributeError ''PSTATE_BASE_PATH''),
              w\<lparr>trace := trace w @ [Logged DEBUG (''executing '' @
                  as_pretty_string ''__main__'' ''_restore_or_set''
                    [PStr ''/sys/devices/system/cpu/intel_pstate/no_turbo'', PInt 1])]\<rparr>)
         \<and> files (snd (rt_settings_on e a IntelPState w)) = files w
         \<and> tempfile (snd (rt_settings_on e a IntelPState w)) = tempfile w
         \<and> files (snd (rt_settings_off e a IntelPState w)) = files w
         \<and> tempfile (snd (rt_settings_off e a IntelPState w)) = tempfile w"
  using intel_pstate_on_raises [OF assms, of e w] intel_pstate_off_raises [OF assms, of e w]
  by (simp add: intel_pstate_attributes_def)

theorem turbo_module_raises_AttributeError_witness:
  "\<not> simulate plain_args
   \<and> fst (rt_settings_on example_env plain_args IntelPState example_world) =
       Inl (AttributeError ''PSTATE_BASE_PATH'')
   \<and> fst (rt_settings_off example_env plain_args IntelPState snapshot_world) =
       Inl (AttributeError ''PSTATE_BASE_PATH'')
   \<and> files (snd (rt_settings_on example_env plain_args IntelPState example_world)) =
       files example_world
   \<and> tempfile (snd (rt_settings_off example_env plain_args IntelPState snapshot_world)) =
       tempfile snapshot_world"
proof -
  have s: "\<not> simulate plain_args" by (simp add: plain_args_def)
  show ?thesis
    using s turbo_module_raises_AttributeError [OF s, of example_env example_world]
      turbo_module_raises_AttributeError [OF s, of example_env snapshot_world]
    by simp
qed

text \<open>
  Claim C1 says that after \<^verbatim>\<open>rt_settings_on\<close> has saved the no-turbo value,
  \<^verbatim>\<open>rt_settings_off\<close> writes it back, and that \<^verbatim>\<open>rt_settings_off\<close> writes the default
  \<^verbatim>\<open>1\<close> when the snapshot has no entry. On a machine whose no-turbo file holds \<^verbatim>\<open>0\<close>
  and whose snapshot file is missing, \<^verbatim>\<open>rt_settings_on\<close> raises and saves nothing, and
  \<^verbatim>\<open>rt_settings_off\<close> raises and leaves \<^verbatim>\<open>0\<close> in the file where the default was due.
\<close>

theorem turbo_module_saves_and_restores_nothing:
  "fst (rt_settings_on example_env plain_args IntelPState example_world) =
     Inl (AttributeError ''PSTATE_BASE_PATH'')
   \<and> tempfile (snd (rt_settings_on example_env plain_args IntelPState example_world)) = Missing
   \<and> fst (rt_settings_off example_env plain_args IntelPState example_world) =
       Inl (AttributeError ''PSTATE_BASE_PATH'')
   \<and> files (snd (rt_settings_off example_env plain_args IntelPState example_world)) NO_TURBO =
       Some (''0'' @ [CHR 0x0A])
   \<and> files (snd (rt_settings_off example_env plain_args IntelPState example_world)) NO_TURBO \<noteq>
       Some (py_str (PInt 1))"
proof -
  have s: "\<not> simulate plain_args" by (simp add: plain_args_def)
  show ?thesis
    using intel_pstate_on_raises [OF s, of example_env example_world]
      intel_pstate_off_raises [OF s, of example_env example_world]
    by (simp add: example_world_def show_int_def show_nat.simps)
qed

section \<open>Simulate mode: properties\<close>

lemma only_describes_returns: "only_describes (returns x)"
  by (simp add: only_describes_def returns_def)

lemma only_describes_raises: "only_describes (raises err)"
  by (simp add: only_describes_def raises_def)

lemma only_describes_emit: "harmless ev \<Longrightarrow> only_describes (emit ev)"
  by (simp add: only_describes_def emit_def)

lemma only_describes_and_then:
  assumes "only_describes m" and "\<And>x. only_describes (f x)"
  shows "only_describes (and_then m f)"
  unfolding only_describes_def
proof
  fix w
  obtain r w1 where m: "m w = (r, w1)" by (cases "m w")
  from assms(1) m obtain evs1 where
    1: "files w1 = files w" "tempfile w1 = tempfile w" "trace w1 = trace w @ evs1"
       "list_all harmless evs1"
    unfolding only_describes_def by (metis snd_conv)
  show "files (snd (and_then m f w)) = files w \<and> tempfile (snd (and_then m f w)) = tempfile w \<and>
        (\<exists>evs. trace (snd (and_then m f w)) = trace w @ evs \<and> list_all harmless evs)"
  proof (cases r)
    case (Inl err)
    with m 1 show ?thesis by (auto simp: and_then_def)
  next
    case (Inr x)
    from assms(2) [of x] obtain evs2 where
      2: "files (snd (f x w1)) = files w1" "tempfile (snd (f x w1)) = tempfile w1"
         "trace (snd (f x w1)) = trace w1 @ evs2" "list_all harmless evs2"
      unfolding only_describes_def by blast
    have "trace (snd (f x w1)) = trace w @ (evs1 @ evs2)" "list_all harmless (evs1 @ evs2)"
      using 1 2 by simp_all
    with Inr m 1 2 show ?thesis by (auto simp: and_then_def)
  qed
qed

lemma only_describes_for_each:
  "(\<And>x. only_describes (body x)) \<Longrightarrow> only_describes (for_each xs body)"
  by (induction xs) (auto intro: only_describes_returns only_describes_and_then)

lemma only_describes_open_read: "only_describes (open_read p)"
  unfolding open_read_def
  apply (rule only_describes_and_then)
   apply (simp add: only_describes_emit)
  apply (simp add: only_describes_def split: option.splits)
  done

lemma only_describes_execute_safely:
  "simulate a \<Longrightarrow> only_describes (execute_safely a fmodule fname args function)"
  by (simp add: execute_safely_def only_describes_emit)

lemma only_describes_fill_services_cache: "only_describes (fill_services_cache e)"
  unfolding only_describes_def
  by (auto simp: fill_services_cache_def and_then_def emit_def raises_def
      split: option.splits sum.splits)

lemma only_describes_service: "simulate a \<Longrightarrow> only_describes (service e a name action)"
  unfolding service_def
  apply (rule only_describes_and_then [OF only_describes_fill_services_cache])
  apply (simp add: only_describes_def execute_safely_def emit_def raises_def split: option.splits)
  done

lemma only_describes_check_uname: "only_describes (check_uname e)"
  by (simp add: check_uname_def only_describes_emit)

lemma only_describes_check_for_real_time_kernel_on:
  "only_describes (check_for_real_time_kernel_on e)"
proof -
  have a: "only_describes (and_then (open_read SYS_RT_FILE)
                (\<lambda>text. if readline text = ''1''
                         then emit (Logged DEBUG (''found '' @ SYS_RT_FILE @ '' with '' @
                                      [CHR 0x27] @ ''1'' @ [CHR 0x27] @ '' in it''))
                         else check_uname e))"
    by (intro only_describes_and_then only_describes_open_read)
       (simp add: only_describes_emit only_describes_check_uname)
  show ?thesis
    using a only_describes_check_uname [of e]
    by (simp add: only_describes_def check_for_real_time_kernel_on_def split: option.splits)
qed

lemma only_describes_getattr: "only_describes (getattr e name)"
  by (simp add: getattr_def only_describes_raises only_describes_returns split: option.splits)

lemma only_describes_rt_settings_on: "simulate a \<Longrightarrow> only_describes (rt_settings_on e a m)"
  by (cases m)
     (auto simp: service_stop_def frequency_scaling_on_def intel_pstate_on_def
       intro!: only_describes_and_then only_describes_service only_describes_for_each
         only_describes_execute_safely only_describes_getattr
         only_describes_check_for_real_time_kernel_on)

lemma only_describes_rt_settings_off: "simulate a \<Longrightarrow> only_describes (rt_settings_off e a m)"
  by (cases m)
     (auto simp: service_start_def frequency_scaling_off_def intel_pstate_off_def
       intro!: only_describes_and_then only_describes_service only_describes_for_each
         only_describes_execute_safely only_describes_getattr only_describes_returns)

lemma only_describes_run_on: "simulate a \<Longrightarrow> only_describes (run_on e a ms)"
  unfolding run_on_def
  by (intro only_describes_for_each only_describes_and_then only_describes_emit
      only_describes_rt_settings_on) simp_all

lemma only_describes_run_off: "simulate a \<Longrightarrow> only_describes (run_off e a ms)"
  unfolding run_off_def
  by (intro only_describes_for_each only_describes_and_then only_describes_emit
      only_describes_rt_settings_off) simp_all

lemma only_describes_warn_unless_root: "only_describes (warn_unless_root e a)"
  by (simp add: warn_unless_root_def only_describes_returns only_describes_emit)

lemma only_describes_main: "simulate a \<Longrightarrow> only_describes (main e a)"
  unfolding main_def
  by (auto split: prod.splits option.splits switch.splits
      intro!: only_describes_and_then only_describes_for_each only_describes_emit
        only_describes_raises only_describes_warn_unless_root only_describes_run_on
        only_describes_run_off)

text \<open>
  Claim C3 says that with \<^verbatim>\<open>--simulate\<close> the program performs no filesystem write, no
  process start or stop and no service call while the modules run, on every path
  through \<^verbatim>\<open>execute_safely\<close> and the service controller. The service controller fills its
  cache with \<^verbatim>\<open>check_output(("systemctl", "list-unit-files"))\<close>, which is not passed
  through \<^verbatim>\<open>execute_safely\<close>: a simulated \<^verbatim>\<open>on\<close> run starts that child process.
\<close>

theorem simulate_starts_systemctl:
  "simulate (plain_args\<lparr>simulate := True, on_or_off := Some On\<rparr>)
   \<and> filter is_process
       (trace (snd (main example_env (plain_args\<lparr>simulate := True, on_or_off := Some On\<rparr>)
                      example_world))) =
       [Process [''systemctl'', ''list-unit-files'']]
   \<and> filter is_process
       (trace (snd (main example_env (plain_args\<lparr>simulate := True, on_or_off := Some On\<rparr>)
                      example_world))) \<noteq> []"
  by code_simp

text \<open>
  Claim C3, amended: with \<^verbatim>\<open>--simulate\<close> the program writes no file (the snapshot file
  included) and starts or stops no service; every call through \<^verbatim>\<open>execute_safely\<close> only
  prints a description of the action. The only child process it starts is the query
  \<^verbatim>\<open>systemctl list-unit-files\<close> of the service controller. This holds for the whole run
  and for each module's two operations.
\<close>

theorem simulate_only_describes:
  assumes "simulate a"
  shows "files (snd (main e a w)) = files w
         \<and> tempfile (snd (main e a w)) = tempfile w
         \<and> (\<exists>evs. trace (snd (main e a w)) = trace w @ evs \<and> list_all harmless evs)
         \<and> only_describes (rt_settings_on e a m)
         \<and> only_describes (rt_settings_off e a m)
         \<and> execute_safely a fmodule fname args function =
             emit (Stdout (''simulating - would execute: '' @ as_pretty_string fmodule fname args))"
  using only_describes_main [OF assms, of e] only_describes_rt_settings_on [OF assms, of e m]
    only_describes_rt_settings_off [OF assms, of e m] assms
  by (simp add: only_describes_def execute_safely_def)

theorem simulate_only_describes_witness:
  "simulate (plain_args\<lparr>simulate := True, on_or_off := Some On\<rparr>)
   \<and> files (snd (main example_env (plain_args\<lparr>simulate := True, on_or_off := Some On\<rparr>)
                   example_world)) = files example_world
   \<and> tempfile (snd (main example_env (plain_args\<lparr>simulate := True, on_or_off := Some On\<rparr>)
                      example_world)) = Missing
   \<and> list_all harmless
       (trace (snd (main example_env (plain_args\<lparr>simulate := True, on_or_off := Some On\<rparr>)
                      example_world)))"
proof -
  have s: "simulate (plain_args\<lparr>simulate := True, on_or_off := Some On\<rparr>)" by simp
  have t: "trace example_world = []" "tempfile example_world = Missing"
    by (simp_all add: example_world_def)
  show ?thesis
    using s simulate_only_describes [OF s, of example_env example_world]
    unfolding t by auto
qed

end
